theory Spec2Isabelle
  imports Complex_Main "HOL-Library.Word" "HOL-Library.Product_Lexorder"
    "HOL-Library.Multiset" "HOL-Library.AList"
begin

section \<open>Data model of \<open>analysis_spike.py\<close>\<close>

text \<open>
  The class \<open>SpikeAnalysis\<close> post-processes the raw output of a simulation: it remaps
  node ids, merges the fragment files of every population, and prints firing rates.
  Exceptions of the Python code are values of \<open>py_error\<close>; an operation that can raise
  returns a sum with \<open>Inl\<close> for the exception.
\<close>

datatype py_error =
  IndexError | ValueError | ZeroDivisionError | AttributeError | FileNotFoundError

text \<open>
  The structured dtypes of \<open>__merge_raw_files\<close>: \<open>('nodeid', 'time_ms')\<close> with formats
  \<open>('i4', 'f8')\<close> for spikes and \<open>('nodeid', 'x-position_mm', 'y-position_mm')\<close> with
  \<open>('i4', 'f8', 'f8')\<close> for positions. The id is a 32-bit integer, read as signed with
  \<open>sint\<close>. The \<open>f8\<close> columns are modelled as exact rationals: every finite double is
  a rational, and the rounding of the one subtraction done on them is not modelled.
\<close>

record row =
  nodeid :: "32 word"

record event = row +
  time_ms :: rat

record position = row +
  x_position_mm :: rat
  y_position_mm :: rat

text \<open>
  Files are lists of lines. A data line is kept structured (its textual encoding by
  \<open>%d\<close>, \<open>%.3f\<close>, \<open>%f\<close> is a function of the row and is not modelled); \<open>Text\<close> is any
  other line: a header or a comment. A file system is an association list from paths
  (directory, file name) to contents; its order is the order of a directory listing.
\<close>

datatype line =
  Text string | NodeidRow int int | EventRow event | PositionRow position

type_synonym path = "string \<times> string"

type_synonym file_system = "(path \<times> line list) list"

text \<open>The entries of \<open>sim_dict\<close> and \<open>net_dict\<close> that \<open>analysis_spike.py\<close> reads.\<close>

record sim_dict =
  path_raw_data :: string
  path_processed_data :: string
  fname_nodeids :: string
  t_presim :: rat
  t_sim :: rat

record net_dict =
  populations :: "string list"
  num_neurons :: "int list"
  num_pops :: nat

text \<open>The two values of the parameter \<open>datatype\<close> that \<open>__init__\<close> passes.\<close>

datatype datatype_opt = spike_detector | positions

text \<open>
  \<open>np.loadtxt(..., dtype=int)\<close> squeezes its result: a table of two or more rows is a
  two-dimensional array, a table of one row is the one-dimensional array of its two
  numbers, an empty table is an empty one-dimensional array.
\<close>

datatype ndarray = Array2 "(int \<times> int) list" | Array1 "int list"

section \<open>Files\<close>

definition write_file :: "file_system \<Rightarrow> path \<Rightarrow> line list \<Rightarrow> file_system" where
  "write_file fs fn ls = AList.update fn ls fs"

text \<open>
  \<open>glob.glob(os.path.join(dir, pre + '*' + suf))\<close>: the files of \<open>dir\<close> whose name starts
  with \<open>pre\<close> and ends with \<open>suf\<close>, the star matching any middle part, also the empty one.
\<close>

definition fnmatch :: "string \<Rightarrow> string \<Rightarrow> string \<Rightarrow> bool" where
  "fnmatch pre suf name =
     (length pre + length suf \<le> length name \<and> take (length pre) name = pre
      \<and> drop (length name - length suf) name = suf)"

definition glob :: "file_system \<Rightarrow> string \<Rightarrow> string \<Rightarrow> string \<Rightarrow> path list" where
  "glob fs dir pre suf =
     filter (\<lambda>fn. fst fn = dir \<and> fnmatch pre suf (snd fn)) (map fst fs)"

text \<open>
  \<open>np.loadtxt\<close> after its \<open>skiprows\<close>: comment lines (starting with \<open>#\<close>) and blank
  lines are skipped, a row of the requested dtype is read, anything else raises
  \<open>ValueError\<close>.
\<close>

definition is_comment :: "string \<Rightarrow> bool" where
  "is_comment s =
     (case dropWhile (\<lambda>c. c = CHR '' '') s of [] \<Rightarrow> True | c # _ \<Rightarrow> c = CHR ''#'')"

fun event_rows :: "line list \<Rightarrow> py_error + event list" where
  "event_rows [] = Inr []"
| "event_rows (EventRow r # ls) =
     (case event_rows ls of Inl e \<Rightarrow> Inl e | Inr rs \<Rightarrow> Inr (r # rs))"
| "event_rows (Text s # ls) = (if is_comment s then event_rows ls else Inl ValueError)"
| "event_rows (_ # ls) = Inl ValueError"

fun position_rows :: "line list \<Rightarrow> py_error + position list" where
  "position_rows [] = Inr []"
| "position_rows (PositionRow r # ls) =
     (case position_rows ls of Inl e \<Rightarrow> Inl e | Inr rs \<Rightarrow> Inr (r # rs))"
| "position_rows (Text s # ls) =
     (if is_comment s then position_rows ls else Inl ValueError)"
| "position_rows (_ # ls) = Inl ValueError"

fun nodeid_rows :: "line list \<Rightarrow> py_error + (int \<times> int) list" where
  "nodeid_rows [] = Inr []"
| "nodeid_rows (NodeidRow a b # ls) =
     (case nodeid_rows ls of Inl e \<Rightarrow> Inl e | Inr rs \<Rightarrow> Inr ((a, b) # rs))"
| "nodeid_rows (Text s # ls) = (if is_comment s then nodeid_rows ls else Inl ValueError)"
| "nodeid_rows (_ # ls) = Inl ValueError"

definition loadtxt_events :: "nat \<Rightarrow> line list \<Rightarrow> py_error + event list" where
  "loadtxt_events skiprows ls = event_rows (drop skiprows ls)"

definition loadtxt_positions :: "nat \<Rightarrow> line list \<Rightarrow> py_error + position list" where
  "loadtxt_positions skiprows ls = position_rows (drop skiprows ls)"

definition loadtxt_nodeids :: "line list \<Rightarrow> py_error + ndarray" where
  "loadtxt_nodeids ls =
     (case nodeid_rows ls of
        Inl e \<Rightarrow> Inl e
      | Inr [] \<Rightarrow> Inr (Array1 [])
      | Inr [(a, b)] \<Rightarrow> Inr (Array1 [a, b])
      | Inr rs \<Rightarrow> Inr (Array2 rs))"

section \<open>Identifier Remapper: \<open>__raw_to_processed_nodeids\<close>\<close>

text \<open>
  Lines 114 to 116: \<open>[1 + np.sum(num_neurons[:i]) for i in np.arange(num_pops)]\<close>.
\<close>

definition first_nodeids_proc :: "int list \<Rightarrow> nat \<Rightarrow> int list" where
  "first_nodeids_proc sizes n = map (\<lambda>i. 1 + sum_list (take i sizes)) [0..<n]"

text \<open>
  \<open>np.add\<close> on two one-dimensional arrays broadcasts an array of length one and raises
  \<open>ValueError\<close> on any other difference of lengths; \<open>np.c_\<close> pairs two columns of one
  length and raises \<open>ValueError\<close> otherwise.
\<close>

definition np_add :: "int list \<Rightarrow> int list \<Rightarrow> py_error + int list" where
  "np_add xs ys =
     (if length xs = length ys then Inr (map2 (+) xs ys)
      else if length ys = 1 then Inr (map (\<lambda>x. x + hd ys) xs)
      else if length xs = 1 then Inr (map (\<lambda>y. hd xs + y) ys)
      else Inl ValueError)"

definition np_c :: "int list \<Rightarrow> int list \<Rightarrow> py_error + (int \<times> int) list" where
  "np_c xs ys = (if length xs = length ys then Inr (zip xs ys) else Inl ValueError)"

text \<open>Lines 114 to 119: the table of processed first and last ids.\<close>

definition nodeids_proc_table :: "int list \<Rightarrow> nat \<Rightarrow> py_error + (int \<times> int) list" where
  "nodeids_proc_table sizes n =
     (case np_add (first_nodeids_proc sizes n) sizes of
        Inl e \<Rightarrow> Inl e
      | Inr s \<Rightarrow> np_c (first_nodeids_proc sizes n) (map (\<lambda>x. x - 1) s))"

text \<open>
  The whole method. Rank 0 loads the raw table and broadcasts it, so every rank holds
  what rank 0 read; rank 0 writes the processed table. Nothing compares the raw table
  with \<open>num_pops\<close> or \<open>num_neurons\<close>.
\<close>

definition raw_to_processed_nodeids ::
  "sim_dict \<Rightarrow> net_dict \<Rightarrow> nat \<Rightarrow> file_system
    \<Rightarrow> (py_error + ndarray \<times> (int \<times> int) list) \<times> file_system" where
  "raw_to_processed_nodeids sim net RANK fs =
     (case map_of fs (path_raw_data sim, fname_nodeids sim) of
        None \<Rightarrow> (Inl FileNotFoundError, fs)
      | Some ls \<Rightarrow>
          (case loadtxt_nodeids ls of
             Inl e \<Rightarrow> (Inl e, fs)
           | Inr nodeids_raw \<Rightarrow>
               (case nodeids_proc_table (num_neurons net) (num_pops net) of
                  Inl e \<Rightarrow> (Inl e, fs)
                | Inr nodeids_proc \<Rightarrow>
                    (Inr (nodeids_raw, nodeids_proc),
                     if RANK = 0
                     then write_file fs (path_processed_data sim, fname_nodeids sim)
                            (map (\<lambda>(a, b). NodeidRow a b) nodeids_proc)
                     else fs))))"

section \<open>File Merge Engine: \<open>__merge_raw_files\<close>\<close>

text \<open>
  \<open>nodeids_raw[ipop][0]\<close> and \<open>nodeids_proc[ipop][0]\<close>. Indexing a one-dimensional
  array twice raises \<open>IndexError\<close> whatever the index.
\<close>

definition first_raw_id :: "ndarray \<Rightarrow> nat \<Rightarrow> py_error + int" where
  "first_raw_id a ipop =
     (case a of
        Array2 tab \<Rightarrow> if ipop < length tab then Inr (fst (tab ! ipop)) else Inl IndexError
      | Array1 _ \<Rightarrow> Inl IndexError)"

definition first_proc_id :: "(int \<times> int) list \<Rightarrow> nat \<Rightarrow> py_error + int" where
  "first_proc_id tab ipop =
     (if ipop < length tab then Inr (fst (tab ! ipop)) else Inl IndexError)"

text \<open>
  Lines 183 to 192 for spikes. The in-place addition on the \<open>i4\<close> column wraps at 32
  bits. \<open>np.sort(comb_data, order='time_ms')\<close> compares the named field first and then
  the remaining fields in the order of the dtype, so the key is the pair of the time
  and the signed id.
\<close>

definition process_events :: "int \<Rightarrow> int \<Rightarrow> rat \<Rightarrow> event list \<Rightarrow> event list" where
  "process_events first_raw first_proc presim comb_data =
     sort_key (\<lambda>r. (time_ms r, sint (nodeid r)))
       (map (\<lambda>r. r\<lparr>time_ms := time_ms r - presim\<rparr>)
          (map (\<lambda>r. r\<lparr>nodeid := nodeid r + word_of_int (- first_raw + first_proc)\<rparr>)
             comb_data))"

text \<open>
  The same lines for positions: there is no field \<open>time_ms\<close>, and the order is
  \<open>'nodeid'\<close>, then the two coordinates.
\<close>

definition process_positions :: "int \<Rightarrow> int \<Rightarrow> position list \<Rightarrow> position list" where
  "process_positions first_raw first_proc comb_data =
     sort_key (\<lambda>r. (sint (nodeid r), x_position_mm r, y_position_mm r))
       (map (\<lambda>r. r\<lparr>nodeid := nodeid r + word_of_int (- first_raw + first_proc)\<rparr>)
          comb_data)"

text \<open>Lines 175 to 178: every file found is loaded and appended, in the order found.\<close>

fun load_files ::
  "(line list \<Rightarrow> py_error + 'r list) \<Rightarrow> file_system \<Rightarrow> path list \<Rightarrow> py_error + 'r list" where
  "load_files load fs [] = Inr []"
| "load_files load fs (fn # fns) =
     (case map_of fs fn of
        None \<Rightarrow> Inl FileNotFoundError
      | Some ls \<Rightarrow>
          (case load ls of
             Inl e \<Rightarrow> Inl e
           | Inr data \<Rightarrow>
               (case load_files load fs fns of
                  Inl e \<Rightarrow> Inl e
                | Inr comb_data \<Rightarrow> Inr (data @ comb_data))))"

definition datatype_name :: "datatype_opt \<Rightarrow> string" where
  "datatype_name dt = (case dt of spike_detector \<Rightarrow> ''spike_detector'' | positions \<Rightarrow> ''positions'')"

text \<open>The header line \<open>np.savetxt\<close> writes: \<open>'# '\<close>, then the names joined by \<open>'\t '\<close>.\<close>

definition header :: "datatype_opt \<Rightarrow> string" where
  "header dt =
     (case dt of
        spike_detector \<Rightarrow> ''# nodeid'' @ [CHR 0x09] @ '' time_ms''
      | positions \<Rightarrow>
          ''# nodeid'' @ [CHR 0x09] @ '' x-position_mm'' @ [CHR 0x09] @ '' y-position_mm'')"

text \<open>
  The body of the loop of \<open>__merge_raw_files\<close> for one population, up to the sort
  (lines 170 to 192) and what \<open>np.savetxt\<close> makes of the result: the exception raised,
  if any, and the lines left in the output file, if the file is opened at all. When
  \<open>glob\<close> finds no file, \<open>comb_data\<close> is still the array of shape \<open>(1, 0)\<close> it was
  created as; \<open>np.savetxt\<close> opens (and so empties) the output file, counts zero columns
  against the two or three formats and raises \<open>AttributeError\<close>.
\<close>

definition merged_lines ::
  "sim_dict \<Rightarrow> datatype_opt \<Rightarrow> ndarray \<Rightarrow> (int \<times> int) list \<Rightarrow> nat \<Rightarrow> string
    \<Rightarrow> file_system \<Rightarrow> py_error option \<times> line list option" where
  "merged_lines sim dt nodeids_raw nodeids_proc ipop X fs =
     (let single_files = glob fs (path_raw_data sim) (datatype_name dt @ ''_'' @ X) ''.dat''
      in case dt of
        spike_detector \<Rightarrow>
          (case load_files (loadtxt_events 3) fs single_files of
             Inl e \<Rightarrow> (Some e, None)
           | Inr comb_data \<Rightarrow>
               (case first_raw_id nodeids_raw ipop of
                  Inl e \<Rightarrow> (Some e, None)
                | Inr first_raw \<Rightarrow>
                    (case first_proc_id nodeids_proc ipop of
                       Inl e \<Rightarrow> (Some e, None)
                     | Inr first_proc \<Rightarrow>
                         if single_files = [] then (Some AttributeError, Some [])
                         else (None, Some
                                 (Text (header dt) # map EventRow
                                    (process_events first_raw first_proc (t_presim sim)
                                       comb_data))))))
      | positions \<Rightarrow>
          (case load_files (loadtxt_positions 0) fs single_files of
             Inl e \<Rightarrow> (Some e, None)
           | Inr comb_data \<Rightarrow>
               (case first_raw_id nodeids_raw ipop of
                  Inl e \<Rightarrow> (Some e, None)
                | Inr first_raw \<Rightarrow>
                    (case first_proc_id nodeids_proc ipop of
                       Inl e \<Rightarrow> (Some e, None)
                     | Inr first_proc \<Rightarrow>
                         if single_files = [] then (Some AttributeError, Some [])
                         else (None, Some
                                 (Text (header dt) # map PositionRow
                                    (process_positions first_raw first_proc comb_data)))))))"

text \<open>
  The body of the loop with its one write (lines 195 to 200), to the file
  \<open>datatype + '_' + X + '.dat'\<close> of the directory of processed data. It returns the
  exception raised, if any, and the file system it leaves.
\<close>

definition merge_population ::
  "sim_dict \<Rightarrow> datatype_opt \<Rightarrow> ndarray \<Rightarrow> (int \<times> int) list \<Rightarrow> nat \<Rightarrow> string
    \<Rightarrow> file_system \<Rightarrow> py_error option \<times> file_system" where
  "merge_population sim dt nodeids_raw nodeids_proc ipop X fs =
     (case merged_lines sim dt nodeids_raw nodeids_proc ipop X fs of
        (e, None) \<Rightarrow> (e, fs)
      | (e, Some ls) \<Rightarrow>
          (e, write_file fs (path_processed_data sim, datatype_name dt @ ''_'' @ X @ ''.dat'')
                ls))"

text \<open>
  Line 169, \<open>if ipop % SIZE == RANK\<close>: the round-robin rule of the merge phase.
\<close>

definition merges :: "nat \<Rightarrow> nat \<Rightarrow> nat \<Rightarrow> bool" where
  "merges SIZE RANK ipop = (ipop mod SIZE = RANK)"

text \<open>
  The loop over \<open>enumerate(self.X)\<close> as one rank runs it: it stops at the first
  exception, keeping the files written before. MPI gives \<open>SIZE \<ge> 1\<close>; the modulus by
  zero is kept as the exception it would be.
\<close>

fun merge_loop ::
  "sim_dict \<Rightarrow> datatype_opt \<Rightarrow> ndarray \<Rightarrow> (int \<times> int) list \<Rightarrow> nat \<Rightarrow> nat
    \<Rightarrow> (nat \<times> string) list \<Rightarrow> file_system \<Rightarrow> py_error option \<times> file_system" where
  "merge_loop sim dt nodeids_raw nodeids_proc SIZE RANK [] fs = (None, fs)"
| "merge_loop sim dt nodeids_raw nodeids_proc SIZE RANK ((ipop, X) # rest) fs =
     (if SIZE = 0 then (Some ZeroDivisionError, fs)
      else if merges SIZE RANK ipop then
        (case merge_population sim dt nodeids_raw nodeids_proc ipop X fs of
           (Some e, fs') \<Rightarrow> (Some e, fs')
         | (None, fs') \<Rightarrow> merge_loop sim dt nodeids_raw nodeids_proc SIZE RANK rest fs')
      else merge_loop sim dt nodeids_raw nodeids_proc SIZE RANK rest fs)"

definition merge_raw_files ::
  "sim_dict \<Rightarrow> net_dict \<Rightarrow> datatype_opt \<Rightarrow> ndarray \<Rightarrow> (int \<times> int) list \<Rightarrow> nat \<Rightarrow> nat
    \<Rightarrow> file_system \<Rightarrow> py_error option \<times> file_system" where
  "merge_raw_files sim net dt nodeids_raw nodeids_proc SIZE RANK fs =
     merge_loop sim dt nodeids_raw nodeids_proc SIZE RANK
       (enumerate 0 (populations net)) fs"

section \<open>Summary statistics: \<open>__first_glance_on_data\<close>\<close>

text \<open>
  Line 218, \<open>int(ipop / block_size) == RANK\<close>: the block rule of the statistics phase.
  The quotient is a Python division, which raises when \<open>block_size\<close> is zero. (The
  quotient of two such small integers is exact in a double, so its integer part is the
  integer quotient.)
\<close>

definition owns_block :: "nat \<Rightarrow> nat \<Rightarrow> nat \<Rightarrow> py_error + bool" where
  "owns_block block_size RANK ipop =
     (if block_size = 0 then Inl ZeroDivisionError else Inr (ipop div block_size = RANK))"

text \<open>
  Lines 219 to 224: \<open>num_spikes\<close> is the number of lines of the merged spike file, all
  of them; the rate divides it by the population size and by \<open>t_sim * 1.e-3\<close>. A zero
  divisor is kept as \<open>ZeroDivisionError\<close> (on a numpy scalar the code would go on with
  an infinity, which the rationals do not have).
\<close>

definition local_rate ::
  "sim_dict \<Rightarrow> net_dict \<Rightarrow> nat \<Rightarrow> string \<Rightarrow> file_system \<Rightarrow> py_error + rat" where
  "local_rate sim net ipop X fs =
     (case map_of fs (path_processed_data sim, ''spike_detector_'' @ X @ ''.dat'') of
        None \<Rightarrow> Inl FileNotFoundError
      | Some ls \<Rightarrow>
          (let num_spikes = length ls in
           if length (num_neurons net) \<le> ipop then Inl IndexError
           else if num_neurons net ! ipop = 0 \<or> t_sim sim * (1 / 1000) = 0
           then Inl ZeroDivisionError
           else Inr (of_nat num_spikes / of_int (num_neurons net ! ipop)
                       / (t_sim sim * (1 / 1000)))))"

text \<open>The loop of lines 217 to 224 as one rank runs it, on its vector \<open>local_rates\<close>.\<close>

fun rates_loop ::
  "sim_dict \<Rightarrow> net_dict \<Rightarrow> nat \<Rightarrow> nat \<Rightarrow> (nat \<times> string) list \<Rightarrow> file_system
    \<Rightarrow> rat list \<Rightarrow> py_error + rat list" where
  "rates_loop sim net block_size RANK [] fs local_rates = Inr local_rates"
| "rates_loop sim net block_size RANK ((ipop, X) # rest) fs local_rates =
     (case owns_block block_size RANK ipop of
        Inl e \<Rightarrow> Inl e
      | Inr True \<Rightarrow>
          (case local_rate sim net ipop X fs of
             Inl e \<Rightarrow> Inl e
           | Inr rate \<Rightarrow>
               rates_loop sim net block_size RANK rest fs
                 (local_rates[ipop mod block_size := rate]))
      | Inr False \<Rightarrow> rates_loop sim net block_size RANK rest fs local_rates)"

text \<open>Lines 214 to 224: \<open>block_size = int(len(self.X) / SIZE)\<close> and the local vector.\<close>

definition local_rates ::
  "sim_dict \<Rightarrow> net_dict \<Rightarrow> nat \<Rightarrow> nat \<Rightarrow> file_system \<Rightarrow> py_error + rat list" where
  "local_rates sim net SIZE RANK fs =
     (if SIZE = 0 then Inl ZeroDivisionError
      else rates_loop sim net (length (populations net) div SIZE) RANK
             (enumerate 0 (populations net)) fs
             (replicate (length (populations net) div SIZE) 0))"

text \<open>
  \<open>COMM.Allgather(local_rates, rates)\<close>: the local vectors of ranks \<open>0\<close> to \<open>SIZE - 1\<close>,
  one after the other; a rank that raised has nothing to contribute and the job fails.
\<close>

fun allgather :: "(py_error + rat list) list \<Rightarrow> py_error + rat list" where
  "allgather [] = Inr []"
| "allgather (Inl e # vs) = Inl e"
| "allgather (Inr v # vs) = (case allgather vs of Inl e \<Rightarrow> Inl e | Inr w \<Rightarrow> Inr (v @ w))"

text \<open>Lines 225 and 226: the gathered vector, cut by \<open>rates[:len(self.X)]\<close>.\<close>

definition gathered_rates ::
  "sim_dict \<Rightarrow> net_dict \<Rightarrow> nat \<Rightarrow> file_system \<Rightarrow> py_error + rat list" where
  "gathered_rates sim net SIZE fs =
     (case allgather (map (\<lambda>RANK. local_rates sim net SIZE RANK fs) [0..<SIZE]) of
        Inl e \<Rightarrow> Inl e
      | Inr rates \<Rightarrow> Inr (take (length (populations net)) rates))"

text \<open>
  Assigning an array to a field of \<open>ov\<close>, an array of \<open>len(self.X)\<close> records: the value
  has as many entries, or one entry that is broadcast, or the assignment raises
  \<open>ValueError\<close>.
\<close>

definition np_assign :: "nat \<Rightarrow> 'a list \<Rightarrow> py_error + 'a list" where
  "np_assign n xs =
     (if length xs = n then Inr xs
      else if length xs = 1 then Inr (replicate n (hd xs))
      else Inl ValueError)"

text \<open>
  Lines 214 to 236: the rows of the overview (population, size, rate, first id, last
  id); the casts to the printing dtypes and the printing itself are left out.
\<close>

definition first_glance_on_data ::
  "sim_dict \<Rightarrow> net_dict \<Rightarrow> (int \<times> int) list \<Rightarrow> nat \<Rightarrow> file_system
    \<Rightarrow> py_error + (string \<times> int \<times> rat \<times> int \<times> int) list" where
  "first_glance_on_data sim net nodeids_proc SIZE fs =
     (case gathered_rates sim net SIZE fs of
        Inl e \<Rightarrow> Inl e
      | Inr rates \<Rightarrow>
          (case np_assign (length (populations net)) (num_neurons net) of
             Inl e \<Rightarrow> Inl e
           | Inr sizes \<Rightarrow>
               (case np_assign (length (populations net)) rates of
                  Inl e \<Rightarrow> Inl e
                | Inr rs \<Rightarrow>
                    (case np_assign (length (populations net)) (map fst nodeids_proc) of
                       Inl e \<Rightarrow> Inl e
                     | Inr firsts \<Rightarrow>
                         (case np_assign (length (populations net)) (map snd nodeids_proc) of
                            Inl e \<Rightarrow> Inl e
                          | Inr lasts \<Rightarrow>
                              Inr (zip (populations net)
                                     (zip sizes (zip rs (zip firsts lasts)))))))))"

section \<open>The constructor \<open>__init__\<close>\<close>

text \<open>
  A phase that every rank runs on the shared file system, the ranks taken in order; the
  barrier that ends each merge phase lets the next phase see all of its files.
\<close>

fun run_ranks ::
  "(nat \<Rightarrow> file_system \<Rightarrow> py_error option \<times> file_system) \<Rightarrow> nat list \<Rightarrow> file_system
    \<Rightarrow> py_error option \<times> file_system" where
  "run_ranks phase [] fs = (None, fs)"
| "run_ranks phase (RANK # ranks) fs =
     (case phase RANK fs of
        (Some e, fs') \<Rightarrow> (Some e, fs')
      | (None, fs') \<Rightarrow> run_ranks phase ranks fs')"

text \<open>
  Lines 82 to 89: the remapper, the merge of the spike files, the merge of the
  position files, the first glance. The result is the overview or the exception, and
  the file system as the job leaves it.
\<close>

definition spike_analysis_init ::
  "sim_dict \<Rightarrow> net_dict \<Rightarrow> nat \<Rightarrow> file_system
    \<Rightarrow> (py_error + (string \<times> int \<times> rat \<times> int \<times> int) list) \<times> file_system" where
  "spike_analysis_init sim net SIZE fs =
     (case raw_to_processed_nodeids sim net 0 fs of
        (Inl e, fs1) \<Rightarrow> (Inl e, fs1)
      | (Inr (nodeids_raw, nodeids_proc), fs1) \<Rightarrow>
          (case run_ranks (merge_raw_files sim net spike_detector nodeids_raw nodeids_proc SIZE)
                  [0..<SIZE] fs1 of
             (Some e, fs2) \<Rightarrow> (Inl e, fs2)
           | (None, fs2) \<Rightarrow>
               (case run_ranks (merge_raw_files sim net positions nodeids_raw nodeids_proc SIZE)
                       [0..<SIZE] fs2 of
                  (Some e, fs3) \<Rightarrow> (Inl e, fs3)
                | (None, fs3) \<Rightarrow>
                    (first_glance_on_data sim net nodeids_proc SIZE fs3, fs3))))"

section \<open>The identifier remapper gives contiguous ranges\<close>

lemma sum_list_take_Suc:
  "i < length (sizes :: int list) \<Longrightarrow> sum_list (take (Suc i) sizes) = sum_list (take i sizes) + sizes ! i"
  by (simp add: take_Suc_conv_app_nth)

lemma sum_list_take_mono:
  assumes "\<forall>n\<in>set sizes. (0::int) \<le> n" and "i \<le> j"
  shows "sum_list (take i sizes) \<le> sum_list (take j sizes)"
proof -
  have "take j sizes = take i sizes @ take (j - i) (drop i sizes)"
    using assms(2) by (metis le_add_diff_inverse take_add)
  moreover have "0 \<le> sum_list (take (j - i) (drop i sizes))"
    using assms(1) by (intro sum_list_nonneg) (auto dest!: in_set_takeD in_set_dropD)
  ultimately show ?thesis by simp
qed

lemma nodeids_proc_table_consistent:
  "nodeids_proc_table sizes (length sizes) =
     Inr (map (\<lambda>i. (1 + sum_list (take i sizes), sum_list (take i sizes) + sizes ! i))
            [0..<length sizes])"
  by (auto simp: nodeids_proc_table_def np_add_def np_c_def first_nodeids_proc_def
      intro!: nth_equalityI)

text \<open>
  Claim C1. For every sequence of population sizes (with \<open>num_pops\<close> their number) the
  remapper returns a table with one row per population, where the first id of
  population \<open>i\<close> is one plus the sizes of the populations before it and the last id is
  the first id plus the size minus one. So each range starts right after the one
  before, the first range starts at 1, the last id of the last range is the sum of all
  sizes, and (sizes being counts, so not negative) no two ranges overlap. The raw table
  \<open>[[10,19],[20,29]]\<close> with sizes \<open>[10,10]\<close> gives the processed table
  \<open>[[1,10],[11,20]]\<close>.
\<close>

theorem remapper_processed_ranges:
  "\<exists>tab. nodeids_proc_table sizes (length sizes) = Inr tab
     \<and> length tab = length sizes
     \<and> (\<forall>i<length sizes. fst (tab ! i) = 1 + sum_list (take i sizes)
           \<and> snd (tab ! i) = fst (tab ! i) + sizes ! i - 1)
     \<and> (\<forall>i. Suc i < length sizes \<longrightarrow> fst (tab ! Suc i) = snd (tab ! i) + 1)
     \<and> (sizes \<noteq> [] \<longrightarrow> fst (tab ! 0) = 1 \<and> snd (last tab) = sum_list sizes)
     \<and> ((\<forall>n\<in>set sizes. 0 \<le> n) \<longrightarrow>
           (\<forall>i j. i < j \<and> j < length sizes \<longrightarrow> snd (tab ! i) < fst (tab ! j)))
     \<and> fst (raw_to_processed_nodeids sim
              \<lparr>populations = X, num_neurons = [10, 10], num_pops = 2\<rparr> RANK
              [((path_raw_data sim, fname_nodeids sim), [NodeidRow 10 19, NodeidRow 20 29])])
         = Inr (Array2 [(10, 19), (20, 29)], [(1, 10), (11, 20)])"
proof -
  define tab where
    "tab = map (\<lambda>i. (1 + sum_list (take i sizes), sum_list (take i sizes) + sizes ! i))
             [0..<length sizes]"
  have tab: "nodeids_proc_table sizes (length sizes) = Inr tab"
    unfolding tab_def by (rule nodeids_proc_table_consistent)
  have len: "length tab = length sizes"
    by (simp add: tab_def)
  have rows: "\<forall>i<length sizes. fst (tab ! i) = 1 + sum_list (take i sizes)
      \<and> snd (tab ! i) = fst (tab ! i) + sizes ! i - 1"
    by (simp add: tab_def)
  have contiguous: "\<forall>i. Suc i < length sizes \<longrightarrow> fst (tab ! Suc i) = snd (tab ! i) + 1"
    by (simp add: tab_def sum_list_take_Suc)
  have ends: "sizes \<noteq> [] \<longrightarrow> fst (tab ! 0) = 1 \<and> snd (last tab) = sum_list sizes"
  proof
    assume ne: "sizes \<noteq> []"
    then have "tab \<noteq> []" using len by auto
    then have "last tab = tab ! (length sizes - 1)"
      by (simp add: last_conv_nth len)
    moreover have "length sizes - 1 < length sizes" using ne by simp
    moreover have "sum_list (take (Suc (length sizes - 1)) sizes) = sum_list sizes"
      using ne by simp
    ultimately show "fst (tab ! 0) = 1 \<and> snd (last tab) = sum_list sizes"
      using ne sum_list_take_Suc [of "length sizes - 1" sizes] by (simp add: tab_def)
  qed
  have disjoint: "(\<forall>n\<in>set sizes. 0 \<le> n) \<longrightarrow>
      (\<forall>i j. i < j \<and> j < length sizes \<longrightarrow> snd (tab ! i) < fst (tab ! j))"
  proof (intro impI allI)
    fix i j
    assume nonneg: "\<forall>n\<in>set sizes. 0 \<le> n" and ij: "i < j \<and> j < length sizes"
    then have "sum_list (take (Suc i) sizes) \<le> sum_list (take j sizes)"
      by (intro sum_list_take_mono) auto
    then show "snd (tab ! i) < fst (tab ! j)"
      using ij sum_list_take_Suc [of i sizes] by (simp add: tab_def)
  qed
  have scenario: "fst (raw_to_processed_nodeids sim
              \<lparr>populations = X, num_neurons = [10, 10], num_pops = 2\<rparr> RANK
              [((path_raw_data sim, fname_nodeids sim), [NodeidRow 10 19, NodeidRow 20 29])])
         = Inr (Array2 [(10, 19), (20, 29)], [(1, 10), (11, 20)])"
    using nodeids_proc_table_consistent [of "[10, 10]"]
    by (simp add: raw_to_processed_nodeids_def loadtxt_nodeids_def upt_rec numeral_2_eq_2)
  from tab len rows contiguous ends disjoint scenario show ?thesis by blast
qed

text \<open>The theorem of claim C1 at the sizes \<open>[10, 10]\<close>.\<close>

theorem remapper_processed_ranges_witness:
  "\<exists>tab. nodeids_proc_table [10, 10] (length [10, 10 :: int]) = Inr tab
     \<and> length tab = 2
     \<and> fst (tab ! 0) = 1 \<and> snd (tab ! 0) = 10 \<and> fst (tab ! 1) = 11 \<and> snd (tab ! 1) = 20
     \<and> snd (tab ! 0) < fst (tab ! 1) \<and> snd (last tab) = sum_list [10, 10]"
proof -
  obtain tab where tab: "nodeids_proc_table [10, 10] (length [10, 10 :: int]) = Inr tab"
    and len: "length tab = length [10, 10 :: int]"
    and rows: "\<forall>i<length [10, 10 :: int]. fst (tab ! i) = 1 + sum_list (take i [10, 10])
           \<and> snd (tab ! i) = fst (tab ! i) + [10, 10] ! i - 1"
    and ends: "[10, 10 :: int] \<noteq> [] \<longrightarrow> fst (tab ! 0) = 1 \<and> snd (last tab) = sum_list [10, 10]"
    and disjoint: "(\<forall>n\<in>set [10, 10 :: int]. 0 \<le> n) \<longrightarrow>
           (\<forall>i j. i < j \<and> j < length [10, 10 :: int] \<longrightarrow> snd (tab ! i) < fst (tab ! j))"
    using remapper_processed_ranges [of "[10, 10]"] by blast
  from rows have "fst (tab ! 0) = 1 \<and> snd (tab ! 0) = 10" by simp
  moreover from rows have "fst (tab ! 1) = 11 \<and> snd (tab ! 1) = 20"
    by (auto dest: spec [of _ 1])
  moreover from disjoint have "snd (tab ! 0) < fst (tab ! 1)" by simp
  moreover from ends have "snd (last tab) = sum_list [10, 10]" by simp
  ultimately show ?thesis using tab len by auto
qed

section \<open>The merge: transforms, order, ranges and partition\<close>

lemma event_key_inj: "inj (\<lambda>r :: event. (time_ms r, sint (nodeid r)))"
  by (rule injI) (auto intro!: event.equality signed_word_eqI)

lemma position_key_inj:
  "inj (\<lambda>r :: position. (sint (nodeid r), x_position_mm r, y_position_mm r))"
  by (rule injI) (auto intro!: position.equality signed_word_eqI)

lemma sort_key_inj_perm:
  assumes "inj f" and "mset xs = mset ys"
  shows "sort_key f xs = sort_key f ys"
proof (rule sort_key_inj_key_eq)
  show "mset xs = mset (sort_key f ys)" using assms(2) by simp
  show "inj_on f (set xs)" using assms(1) by (rule inj_on_subset) simp
  show "sorted (map f (sort_key f ys))" by (rule sorted_sort_key)
qed






lemma sorted_process_events:
  "sorted (map (\<lambda>r. (time_ms r, sint (nodeid r)))
     (process_events first_raw first_proc presim comb_data))"
  unfolding process_events_def by (rule sorted_sort_key)


lemma process_events_perm:
  assumes "mset comb_data = mset comb_data'"
  shows "process_events first_raw first_proc presim comb_data
    = process_events first_raw first_proc presim comb_data'"
  unfolding process_events_def
  by (rule sort_key_inj_perm [OF event_key_inj]) (simp add: assms)

lemma process_positions_perm:
  assumes "mset comb_data = mset comb_data'"
  shows "process_positions first_raw first_proc comb_data
    = process_positions first_raw first_proc comb_data'"
  unfolding process_positions_def
  by (rule sort_key_inj_perm [OF position_key_inj]) (simp add: assms)

lemma scenario_B:
  "process_events 10 1 100 [\<lparr>nodeid = 15, time_ms = 105\<rparr>, \<lparr>nodeid = 12, time_ms = 103.2\<rparr>]
     = [\<lparr>nodeid = 3, time_ms = 3.2\<rparr>, \<lparr>nodeid = 6, time_ms = 5\<rparr>]"
  by (simp add: process_events_def)


text \<open>
  Claim C7 says that two spikes of equal \<open>time_ms\<close> leave the sort in the order in
  which they were read. They do not: read as id 15 then id 12 (processed ids 6 and 3),
  both at time 105, they are written as 3 then 6.
\<close>

theorem sort_ties_counterexample:
  "process_events 10 1 100 [\<lparr>nodeid = 15, time_ms = 105\<rparr>, \<lparr>nodeid = 12, time_ms = 105\<rparr>]
     = [\<lparr>nodeid = 3, time_ms = 5\<rparr>, \<lparr>nodeid = 6, time_ms = 5\<rparr>]
   \<and> process_events 10 1 100 [\<lparr>nodeid = 15, time_ms = 105\<rparr>, \<lparr>nodeid = 12, time_ms = 105\<rparr>]
     \<noteq> [\<lparr>nodeid = 6, time_ms = 5\<rparr>, \<lparr>nodeid = 3, time_ms = 5\<rparr>]"
  by (simp add: process_events_def)

text \<open>
  Claim C7, amended. The merged spikes are ascending in the pair (\<open>time_ms\<close>,
  \<open>nodeid\<close>): spikes of equal time are in ascending order of their processed id, and
  the order in which the records were read has no influence on the output.
\<close>

theorem sort_ties_by_nodeid:
  "sorted (map (\<lambda>r. (time_ms r, sint (nodeid r)))
      (process_events first_raw first_proc presim comb_data))
   \<and> (\<forall>i j. i < j \<and> j < length (process_events first_raw first_proc presim comb_data)
         \<and> time_ms (process_events first_raw first_proc presim comb_data ! i)
           = time_ms (process_events first_raw first_proc presim comb_data ! j) \<longrightarrow>
       sint (nodeid (process_events first_raw first_proc presim comb_data ! i))
         \<le> sint (nodeid (process_events first_raw first_proc presim comb_data ! j)))
   \<and> (\<forall>comb_data'. mset comb_data' = mset comb_data \<longrightarrow>
         process_events first_raw first_proc presim comb_data'
           = process_events first_raw first_proc presim comb_data)"
proof (intro conjI allI impI)
  show "sorted (map (\<lambda>r. (time_ms r, sint (nodeid r)))
      (process_events first_raw first_proc presim comb_data))"
    by (rule sorted_process_events)
next
  fix i j
  let ?out = "process_events first_raw first_proc presim comb_data"
  assume ij: "i < j \<and> j < length ?out \<and> time_ms (?out ! i) = time_ms (?out ! j)"
  have "map (\<lambda>r. (time_ms r, sint (nodeid r))) ?out ! i
      \<le> map (\<lambda>r. (time_ms r, sint (nodeid r))) ?out ! j"
    using ij by (intro sorted_nth_mono sorted_process_events) simp_all
  then have "(time_ms (?out ! i), sint (nodeid (?out ! i)))
      \<le> (time_ms (?out ! j), sint (nodeid (?out ! j)))"
    using ij by simp
  then show "sint (nodeid (?out ! i)) \<le> sint (nodeid (?out ! j))"
    using ij by (simp add: less_eq_prod_def)
next
  fix comb_data'
  assume "mset comb_data' = mset comb_data"
  then show "process_events first_raw first_proc presim comb_data'
      = process_events first_raw first_proc presim comb_data"
    by (rule process_events_perm)
qed

text \<open>
  The theorem of claim C7 (amended) at two spikes of equal time, read in either order.
\<close>

theorem sort_ties_by_nodeid_witness:
  "process_events 10 1 100 [\<lparr>nodeid = 15, time_ms = 105\<rparr>, \<lparr>nodeid = 12, time_ms = 105\<rparr>]
     = process_events 10 1 100 [\<lparr>nodeid = 12, time_ms = 105\<rparr>, \<lparr>nodeid = 15, time_ms = 105\<rparr>]
   \<and> sint (nodeid (process_events 10 1 100
        [\<lparr>nodeid = 15, time_ms = 105\<rparr>, \<lparr>nodeid = 12, time_ms = 105\<rparr>] ! 0))
     \<le> sint (nodeid (process_events 10 1 100
        [\<lparr>nodeid = 15, time_ms = 105\<rparr>, \<lparr>nodeid = 12, time_ms = 105\<rparr>] ! 1))"
proof -
  let ?rows = "[\<lparr>nodeid = 15, time_ms = 105\<rparr>, \<lparr>nodeid = 12, time_ms = 105 :: rat\<rparr>]"
  let ?rows' = "[\<lparr>nodeid = 12, time_ms = 105\<rparr>, \<lparr>nodeid = 15, time_ms = 105 :: rat\<rparr>]"
  note ties = sort_ties_by_nodeid [of 10 1 100 ?rows]
  have out: "process_events 10 1 100 ?rows
      = [\<lparr>nodeid = 3, time_ms = 5\<rparr>, \<lparr>nodeid = 6, time_ms = 5\<rparr>]"
    by (simp add: process_events_def)
  have "mset ?rows' = mset ?rows" by simp
  with ties have "process_events 10 1 100 ?rows' = process_events 10 1 100 ?rows"
    by blast
  moreover
  have "0 < (1 :: nat) \<and> 1 < length (process_events 10 1 100 ?rows)
      \<and> time_ms (process_events 10 1 100 ?rows ! 0) = time_ms (process_events 10 1 100 ?rows ! 1)"
    by (simp add: out)
  with ties have "sint (nodeid (process_events 10 1 100 ?rows ! 0))
      \<le> sint (nodeid (process_events 10 1 100 ?rows ! 1))"
    by blast
  ultimately show ?thesis by simp
qed




text \<open>
  Claim C9. For every number of processes \<open>SIZE \<ge> 1\<close> and every number \<open>N\<close> of
  populations, the rule \<open>ipop % SIZE == RANK\<close> of the merge loop gives every population
  to exactly one rank, and the populations of all ranks together are all \<open>N\<close>.
\<close>

theorem round_robin_partition:
  assumes "1 \<le> SIZE"
  shows "(\<forall>ipop<N. \<exists>!RANK. RANK < SIZE \<and> merges SIZE RANK ipop)
       \<and> (\<Union>RANK<SIZE. {ipop. ipop < N \<and> merges SIZE RANK ipop}) = {0..<N}"
  using assms by (auto simp: merges_def)

text \<open>
  The theorem of claim C9 at three processes and eight populations.
\<close>

theorem round_robin_partition_witness:
  "(\<exists>!RANK. RANK < 3 \<and> merges 3 RANK 7) \<and> merges 3 1 7
   \<and> (\<Union>RANK<3. {ipop. ipop < 8 \<and> merges 3 RANK ipop}) = {0..<8}"
proof -
  have "(1 :: nat) \<le> 3" by simp
  from round_robin_partition [OF this, of 8] have
    "(\<forall>ipop<8. \<exists>!RANK. RANK < 3 \<and> merges 3 RANK ipop)
      \<and> (\<Union>RANK<3. {ipop. ipop < 8 \<and> merges 3 RANK ipop}) = {0..<8}" .
  then have "(7 :: nat) < 8 \<longrightarrow> (\<exists>!RANK. RANK < 3 \<and> merges 3 RANK 7)"
    and "(\<Union>RANK<3. {ipop. ipop < 8 \<and> merges 3 RANK ipop}) = {0..<8}"
    by blast+
  moreover have "merges 3 1 7" by (simp add: merges_def)
  ultimately show ?thesis by simp
qed

section \<open>The statistics phase\<close>

lemma rates_loop_block_size_zero:
  "rates_loop sim net 0 RANK ((ipop, X) # rest) fs local = Inl ZeroDivisionError"
  by (simp add: owns_block_def)

lemma local_rates_block_size_zero:
  assumes "populations net \<noteq> []" and "length (populations net) < SIZE"
  shows "local_rates sim net SIZE RANK fs = Inl ZeroDivisionError"
proof -
  obtain X Xs where X: "populations net = X # Xs"
    using assms(1) by (cases "populations net") auto
  have "enumerate 0 (populations net) = (0, X) # enumerate 1 Xs"
    by (simp add: X)
  moreover have "length (populations net) div SIZE = 0"
    using assms(2) by simp
  ultimately show ?thesis
    using assms(2)
    by (simp add: local_rates_def rates_loop_block_size_zero del: rates_loop.simps)
qed

lemma gathered_rates_block_size_zero:
  assumes "populations net \<noteq> []" and "length (populations net) < SIZE"
  shows "gathered_rates sim net SIZE fs = Inl ZeroDivisionError"
proof -
  have "0 < SIZE" using assms(2) by simp
  then have "[0..<SIZE] = 0 # [1..<SIZE]"
    by (simp add: upt_conv_Cons)
  then show ?thesis
    using local_rates_block_size_zero [OF assms, of sim 0 fs]
    by (simp add: gathered_rates_def)
qed

text \<open>
  Claim C10, amended. With at least one population and more processes than
  populations, \<open>block_size\<close> is \<open>floor(N / P) = 0\<close>, the ownership test of the first
  population divides by it and raises \<open>ZeroDivisionError\<close> on every rank, so neither the
  gathered vector nor the overview is produced.
\<close>

theorem block_size_zero_raises:
  assumes "populations net \<noteq> []" and "length (populations net) < SIZE"
  shows "length (populations net) div SIZE = 0
       \<and> owns_block (length (populations net) div SIZE) RANK 0 = Inl ZeroDivisionError
       \<and> local_rates sim net SIZE RANK fs = Inl ZeroDivisionError
       \<and> gathered_rates sim net SIZE fs = Inl ZeroDivisionError
       \<and> first_glance_on_data sim net nodeids_proc SIZE fs = Inl ZeroDivisionError"
  using assms local_rates_block_size_zero [OF assms] gathered_rates_block_size_zero [OF assms]
  by (simp add: owns_block_def first_glance_on_data_def)

text \<open>
  The theorem of claim C10 (amended) at two populations and three processes.
\<close>

theorem block_size_zero_raises_witness:
  "gathered_rates
     \<lparr>path_raw_data = ''raw'', path_processed_data = ''proc'', fname_nodeids = ''ids'',
       t_presim = 100, t_sim = 1000\<rparr>
     \<lparr>populations = [''A'', ''B''], num_neurons = [10, 10], num_pops = 2\<rparr> 3 []
     = Inl ZeroDivisionError"
  using block_size_zero_raises
    [of "\<lparr>populations = [''A'', ''B''], num_neurons = [10, 10], num_pops = 2\<rparr>" 3]
  by simp

text \<open>
  Claim C10 says the division by zero happens for every configuration with more
  processes than populations. With no population at all and one process the loop body
  never runs, nothing is divided, and the statistics phase (and the whole constructor)
  completes.
\<close>

theorem no_population_counterexample:
  "length (populations \<lparr>populations = [], num_neurons = [], num_pops = 0\<rparr>) < 1
   \<and> gathered_rates
        \<lparr>path_raw_data = ''raw'', path_processed_data = ''proc'', fname_nodeids = ''ids'',
          t_presim = 100, t_sim = 1000\<rparr>
        \<lparr>populations = [], num_neurons = [], num_pops = 0\<rparr> 1 [((''raw'', ''ids''), [])]
       = Inr []
   \<and> fst (spike_analysis_init
        \<lparr>path_raw_data = ''raw'', path_processed_data = ''proc'', fname_nodeids = ''ids'',
          t_presim = 100, t_sim = 1000\<rparr>
        \<lparr>populations = [], num_neurons = [], num_pops = 0\<rparr> 1 [((''raw'', ''ids''), [])])
       = Inr []"
  by (simp add: gathered_rates_def local_rates_def spike_analysis_init_def
      raw_to_processed_nodeids_def loadtxt_nodeids_def nodeids_proc_table_def np_add_def
      np_c_def first_nodeids_proc_def merge_raw_files_def first_glance_on_data_def
      np_assign_def write_file_def)

text \<open>
  Claim C4 at a population without spikes: its one fragment holds the three header
  lines only, the merged file is the header line alone, and the rate computed from it
  with ten neurons and one second of simulation is \<open>1 / 10 / 1\<close>, not 0: the count of
  line 222 is the number of lines of the file and takes the header for a spike.
\<close>

theorem header_line_counted_as_spike:
  "merge_population
     \<lparr>path_raw_data = ''raw'', path_processed_data = ''proc'', fname_nodeids = ''ids'',
       t_presim = 100, t_sim = 1000\<rparr>
     spike_detector (Array2 [(10, 19), (20, 29)]) [(1, 10), (11, 20)] 0 ''A''
     [((''raw'', ''spike_detector_A-0.dat''), [Text ''h1'', Text ''h2'', Text ''h3''])]
   = (None,
      [((''raw'', ''spike_detector_A-0.dat''), [Text ''h1'', Text ''h2'', Text ''h3'']),
       ((''proc'', ''spike_detector_A.dat''), [Text (header spike_detector)])])
   \<and> local_rate
       \<lparr>path_raw_data = ''raw'', path_processed_data = ''proc'', fname_nodeids = ''ids'',
         t_presim = 100, t_sim = 1000\<rparr>
       \<lparr>populations = [''A'', ''B''], num_neurons = [10, 10], num_pops = 2\<rparr> 0 ''A''
       [((''raw'', ''spike_detector_A-0.dat''), [Text ''h1'', Text ''h2'', Text ''h3'']),
        ((''proc'', ''spike_detector_A.dat''), [Text (header spike_detector)])]
     = Inr (1 / 10)"
  by (simp add: merge_population_def merged_lines_def glob_def fnmatch_def datatype_name_def
      loadtxt_events_def is_comment_def first_raw_id_def first_proc_id_def write_file_def
      process_events_def local_rate_def)

text \<open>
  Claim C5 at three populations and two processes: \<open>block_size\<close> is 1, ranks 0 and 1
  own populations 0 and 1, neither owns population 2, the gathered vector has two
  entries and the assignment of line 234 to the three rows of the overview raises
  \<open>ValueError\<close>.
\<close>

theorem block_partition_drops_trailing:
  "gathered_rates
     \<lparr>path_raw_data = ''raw'', path_processed_data = ''proc'', fname_nodeids = ''ids'',
       t_presim = 100, t_sim = 1000\<rparr>
     \<lparr>populations = [''A'', ''B'', ''C''], num_neurons = [10, 10, 10], num_pops = 3\<rparr> 2
     [((''proc'', ''spike_detector_A.dat''),
         [Text (header spike_detector), EventRow \<lparr>nodeid = 3, time_ms = 3.2\<rparr>,
          EventRow \<lparr>nodeid = 6, time_ms = 5\<rparr>]),
      ((''proc'', ''spike_detector_B.dat''),
         [Text (header spike_detector), EventRow \<lparr>nodeid = 11, time_ms = 7\<rparr>]),
      ((''proc'', ''spike_detector_C.dat''), [Text (header spike_detector)])]
   = Inr [3 / 10, 2 / 10]
   \<and> owns_block (3 div 2) 0 2 = Inr False \<and> owns_block (3 div 2) 1 2 = Inr False
   \<and> first_glance_on_data
       \<lparr>path_raw_data = ''raw'', path_processed_data = ''proc'', fname_nodeids = ''ids'',
         t_presim = 100, t_sim = 1000\<rparr>
       \<lparr>populations = [''A'', ''B'', ''C''], num_neurons = [10, 10, 10], num_pops = 3\<rparr>
       [(1, 10), (11, 20), (21, 30)] 2
       [((''proc'', ''spike_detector_A.dat''),
           [Text (header spike_detector), EventRow \<lparr>nodeid = 3, time_ms = 3.2\<rparr>,
            EventRow \<lparr>nodeid = 6, time_ms = 5\<rparr>]),
        ((''proc'', ''spike_detector_B.dat''),
           [Text (header spike_detector), EventRow \<lparr>nodeid = 11, time_ms = 7\<rparr>]),
        ((''proc'', ''spike_detector_C.dat''), [Text (header spike_detector)])]
     = Inl ValueError"
  by code_simp

section \<open>The raw table is not checked; the merge can be run again\<close>

























section \<open>What the merge of one population writes\<close>












lemma first_raw_id_Inr_iff:
  "first_raw_id nodeids_raw ipop = Inr first_raw \<longleftrightarrow>
     (\<exists>tab. nodeids_raw = Array2 tab \<and> ipop < length tab \<and> first_raw = fst (tab ! ipop))"
  by (cases nodeids_raw) (auto simp: first_raw_id_def)

lemma first_proc_id_Inr_iff:
  "first_proc_id nodeids_proc ipop = Inr first_proc \<longleftrightarrow>
     ipop < length nodeids_proc \<and> first_proc = fst (nodeids_proc ! ipop)"
  by (auto simp: first_proc_id_def)








end
